theory Spec2Isabelle
  imports Main "HOL-Library.Sublist" "HOL-Library.AList"
begin

section \<open>Values exchanged with the caller\<close>

text \<open>
  The server of \<^verbatim>\<open>file-manager-server.py\<close> reads JSON requests and answers with JSON
  responses. Every value a handler receives from \<^verbatim>\<open>json.loads\<close> is one of Python's
  \<^verbatim>\<open>None\<close>, \<^verbatim>\<open>bool\<close>, \<^verbatim>\<open>int\<close>, \<^verbatim>\<open>float\<close>, \<^verbatim>\<open>str\<close>, \<^verbatim>\<open>list\<close> or \<^verbatim>\<open>dict\<close> (with string keys,
  in insertion order). A Python \<^verbatim>\<open>str\<close> is a list of characters; one \<^typ>\<open>char\<close> stands
  for one code point, so the model covers text whose code points are below 256.
  A float is kept as mantissa and binary exponent, or as one of the special values.
\<close>

datatype pyfloat = PyFloat int int | PyInf bool | PyNaN

datatype json =
    JNull
  | JBool bool
  | JInt int
  | JFloat pyfloat
  | JStr string
  | JList "json list"
  | JDict "(string \<times> json) list"

text \<open>An exception is its class name and the text \<^verbatim>\<open>str(e)\<close> gives. Only subclasses of
  \<^verbatim>\<open>Exception\<close> are modelled: they are what the collaborators raise.\<close>

datatype pyexn = PyExn string string


fun exn_str :: "pyexn \<Rightarrow> string" where
  "exn_str (PyExn c m) = m"

text \<open>Python's truth value of a JSON value, as \<^verbatim>\<open>if recursive:\<close> reads it.\<close>

fun truthy :: "json \<Rightarrow> bool" where
  "truthy JNull = False"
| "truthy (JBool b) = b"
| "truthy (JInt i) = (i \<noteq> 0)"
| "truthy (JFloat (PyFloat m e)) = (m \<noteq> 0)"
| "truthy (JFloat (PyInf b)) = True"
| "truthy (JFloat PyNaN) = True"
| "truthy (JStr s) = (s \<noteq> [])"
| "truthy (JList xs) = (xs \<noteq> [])"
| "truthy (JDict kvs) = (kvs \<noteq> [])"

fun type_name :: "json \<Rightarrow> string" where
  "type_name JNull = ''NoneType''"
| "type_name (JBool b) = ''bool''"
| "type_name (JInt i) = ''int''"
| "type_name (JFloat f) = ''float''"
| "type_name (JStr s) = ''str''"
| "type_name (JList xs) = ''list''"
| "type_name (JDict kvs) = ''dict''"

definition quoted :: "string \<Rightarrow> string" where
  "quoted s = [CHR 0x27] @ s @ [CHR 0x27]"

text \<open>\<^verbatim>\<open>d.get(key, default)\<close> on a dict; on any other value the attribute lookup
  \<^verbatim>\<open>.get\<close> raises \<^verbatim>\<open>AttributeError\<close>.\<close>

definition dict_get :: "(string \<times> json) list \<Rightarrow> string \<Rightarrow> json \<Rightarrow> json" where
  "dict_get d k dflt = (case map_of d k of None \<Rightarrow> dflt | Some v \<Rightarrow> v)"

definition no_attribute :: "json \<Rightarrow> string \<Rightarrow> pyexn" where
  "no_attribute v a =
     PyExn ''AttributeError'' (quoted (type_name v) @ '' object has no attribute '' @ quoted a)"

fun value_get :: "json \<Rightarrow> string \<Rightarrow> json \<Rightarrow> pyexn + json" where
  "value_get (JDict d) k dflt = Inr (dict_get d k dflt)"
| "value_get v k dflt = Inl (no_attribute v ''get'')"

text \<open>A list or a dict cannot be a dictionary key: \<^verbatim>\<open>handlers.get(method)\<close> raises
  \<^verbatim>\<open>TypeError\<close> on one.\<close>

fun hashable :: "json \<Rightarrow> bool" where
  "hashable (JList xs) = False"
| "hashable (JDict kvs) = False"
| "hashable v = True"

definition unhashable :: "json \<Rightarrow> pyexn" where
  "unhashable v = PyExn ''TypeError'' (''unhashable type: '' @ quoted (type_name v))"

text \<open>Decimal and octal numerals, as \<^verbatim>\<open>str\<close> and \<^verbatim>\<open>oct\<close> print them.\<close>

definition digit_char :: "nat \<Rightarrow> char" where
  "digit_char d = char_of (48 + d)"

fun digits_of :: "nat \<Rightarrow> nat \<Rightarrow> string" where
  "digits_of b n =
     (if b < 2 \<or> n < b then [digit_char n] else digits_of b (n div b) @ [digit_char (n mod b)])"

declare digits_of.simps [simp del]

definition str_of_int :: "int \<Rightarrow> string" where
  "str_of_int i = (if i < 0 then ''-'' @ digits_of 10 (nat (- i)) else digits_of 10 (nat i))"

definition oct :: "nat \<Rightarrow> string" where
  "oct n = ''0o'' @ digits_of 8 n"

definition last_chars :: "nat \<Rightarrow> string \<Rightarrow> string" where
  "last_chars k s = drop (length s - k) s"

section \<open>The collaborators\<close>

text \<open>
  The operating system's file system, the MIME classifier, the digest, the glob matcher,
  the JSON codec and the text primitives of the runtime are outside the repository. The
  handlers are written against a record of them, over any state \<open>'w\<close> of the machine
  (files, working directory, environment). A collaborator that can raise returns a sum;
  one that can change the machine returns the new machine as well, also when it raises.
  Arguments arrive as the handler passes them, untyped.
\<close>

record pystat =
  st_size :: int
  st_mode :: nat
  st_ctime :: pyfloat
  st_mtime :: pyfloat
  st_atime :: pyfloat
  st_uid :: int
  st_gid :: int

record 'w sys =
  path_expanduser :: "json \<Rightarrow> 'w \<Rightarrow> pyexn + string"
  path_abspath :: "string \<Rightarrow> 'w \<Rightarrow> pyexn + string"
  path_join :: "json list \<Rightarrow> pyexn + json"
  path_absolute :: "json \<Rightarrow> 'w \<Rightarrow> pyexn + string"
  guess_type :: "json \<Rightarrow> pyexn + string option"
  fs_read_bytes :: "json \<Rightarrow> 'w \<Rightarrow> pyexn + string"
  fs_read_text :: "json \<Rightarrow> json \<Rightarrow> 'w \<Rightarrow> pyexn + string"
  fs_read_lenient :: "json \<Rightarrow> 'w \<Rightarrow> pyexn + string"
  fs_write_text :: "json \<Rightarrow> string \<Rightarrow> json \<Rightarrow> json \<Rightarrow> 'w \<Rightarrow> (pyexn + unit) \<times> 'w"
  fs_glob :: "json \<Rightarrow> bool \<Rightarrow> 'w \<Rightarrow> pyexn + string list"
  fs_exists :: "json \<Rightarrow> 'w \<Rightarrow> bool"
  fs_isdir :: "json \<Rightarrow> 'w \<Rightarrow> bool"
  fs_isfile :: "json \<Rightarrow> 'w \<Rightarrow> bool"
  fs_stat :: "json \<Rightarrow> 'w \<Rightarrow> pyexn + pystat"
  fs_mkdir :: "json \<Rightarrow> json \<Rightarrow> 'w \<Rightarrow> (pyexn + unit) \<times> 'w"
  fs_rmtree :: "json \<Rightarrow> 'w \<Rightarrow> (pyexn + unit) \<times> 'w"
  fs_rmdir :: "json \<Rightarrow> 'w \<Rightarrow> (pyexn + unit) \<times> 'w"
  fs_remove :: "json \<Rightarrow> 'w \<Rightarrow> (pyexn + unit) \<times> 'w"
  fs_move :: "json \<Rightarrow> json \<Rightarrow> 'w \<Rightarrow> (pyexn + unit) \<times> 'w"
  fs_copytree :: "json \<Rightarrow> json \<Rightarrow> 'w \<Rightarrow> (pyexn + unit) \<times> 'w"
  fs_copy2 :: "json \<Rightarrow> json \<Rightarrow> 'w \<Rightarrow> (pyexn + unit) \<times> 'w"
  b64encode :: "string \<Rightarrow> string"
  md5_hexdigest :: "string \<Rightarrow> string"
  json_dumps :: "json \<Rightarrow> string"
  json_dumps_indent :: "json \<Rightarrow> string"
  json_loads :: "string \<Rightarrow> pyexn + json"
  str_lower :: "string \<Rightarrow> string"
  str_strip :: "string \<Rightarrow> string"
  format_2f :: "int \<Rightarrow> nat \<Rightarrow> string"
  value_repr :: "json \<Rightarrow> string"

text \<open>
  The state a handler runs in: the machine, and the list of file-system calls made so
  far, oldest first. Resolving a path name (\<^verbatim>\<open>expanduser\<close>, \<^verbatim>\<open>abspath\<close>, \<^verbatim>\<open>Path.absolute\<close>)
  reads the working directory and the home directory only, and is not listed.
\<close>

datatype fs_call = FsCall string "json list"

record 'w st =
  world :: 'w
  calls :: "fs_call list"

definition query :: "string \<Rightarrow> json list \<Rightarrow> ('w \<Rightarrow> 'a) \<Rightarrow> 'w st \<Rightarrow> 'a \<times> 'w st" where
  "query name args f s = (f (world s), s\<lparr>calls := calls s @ [FsCall name args]\<rparr>)"

definition update :: "string \<Rightarrow> json list \<Rightarrow> ('w \<Rightarrow> 'a \<times> 'w) \<Rightarrow> 'w st \<Rightarrow> 'a \<times> 'w st" where
  "update name args f s =
     (case f (world s) of (r, w') \<Rightarrow> (r, \<lparr>world = w', calls = calls s @ [FsCall name args]\<rparr>))"

text \<open>Each file-system call of the handlers, under the name the source calls it by.\<close>

definition os_path_exists :: "'w sys \<Rightarrow> json \<Rightarrow> 'w st \<Rightarrow> bool \<times> 'w st" where
  "os_path_exists sys p = query ''os.path.exists'' [p] (fs_exists sys p)"

definition os_path_isdir :: "'w sys \<Rightarrow> json \<Rightarrow> 'w st \<Rightarrow> bool \<times> 'w st" where
  "os_path_isdir sys p = query ''os.path.isdir'' [p] (fs_isdir sys p)"

definition os_path_isfile :: "'w sys \<Rightarrow> json \<Rightarrow> 'w st \<Rightarrow> bool \<times> 'w st" where
  "os_path_isfile sys p = query ''os.path.isfile'' [p] (fs_isfile sys p)"

definition os_stat :: "'w sys \<Rightarrow> json \<Rightarrow> 'w st \<Rightarrow> (pyexn + pystat) \<times> 'w st" where
  "os_stat sys p = query ''os.stat'' [p] (fs_stat sys p)"

definition glob_glob :: "'w sys \<Rightarrow> json \<Rightarrow> bool \<Rightarrow> 'w st \<Rightarrow> (pyexn + string list) \<times> 'w st" where
  "glob_glob sys pat rec = query ''glob.glob'' [pat, JBool rec] (fs_glob sys pat rec)"

definition open_read_bytes :: "'w sys \<Rightarrow> json \<Rightarrow> 'w st \<Rightarrow> (pyexn + string) \<times> 'w st" where
  "open_read_bytes sys p = query ''open'' [p, JStr ''rb''] (fs_read_bytes sys p)"

definition open_read_text :: "'w sys \<Rightarrow> json \<Rightarrow> json \<Rightarrow> 'w st \<Rightarrow> (pyexn + string) \<times> 'w st" where
  "open_read_text sys p enc = query ''open'' [p, JStr ''r'', enc] (fs_read_text sys p enc)"

definition open_read_lenient :: "'w sys \<Rightarrow> json \<Rightarrow> 'w st \<Rightarrow> (pyexn + string) \<times> 'w st" where
  "open_read_lenient sys p =
     query ''open'' [p, JStr ''r'', JStr ''utf-8'', JStr ''ignore''] (fs_read_lenient sys p)"

definition open_write ::
  "'w sys \<Rightarrow> json \<Rightarrow> string \<Rightarrow> json \<Rightarrow> json \<Rightarrow> 'w st \<Rightarrow> (pyexn + unit) \<times> 'w st" where
  "open_write sys p mode enc content =
     update ''open'' [p, JStr mode, enc, content] (fs_write_text sys p mode enc content)"

definition path_mkdir :: "'w sys \<Rightarrow> json \<Rightarrow> json \<Rightarrow> 'w st \<Rightarrow> (pyexn + unit) \<times> 'w st" where
  "path_mkdir sys p parents = update ''Path.mkdir'' [p, parents] (fs_mkdir sys p parents)"

definition shutil_rmtree :: "'w sys \<Rightarrow> json \<Rightarrow> 'w st \<Rightarrow> (pyexn + unit) \<times> 'w st" where
  "shutil_rmtree sys p = update ''shutil.rmtree'' [p] (fs_rmtree sys p)"

definition os_rmdir :: "'w sys \<Rightarrow> json \<Rightarrow> 'w st \<Rightarrow> (pyexn + unit) \<times> 'w st" where
  "os_rmdir sys p = update ''os.rmdir'' [p] (fs_rmdir sys p)"

definition os_remove :: "'w sys \<Rightarrow> json \<Rightarrow> 'w st \<Rightarrow> (pyexn + unit) \<times> 'w st" where
  "os_remove sys p = update ''os.remove'' [p] (fs_remove sys p)"

definition shutil_move :: "'w sys \<Rightarrow> json \<Rightarrow> json \<Rightarrow> 'w st \<Rightarrow> (pyexn + unit) \<times> 'w st" where
  "shutil_move sys a b = update ''shutil.move'' [a, b] (fs_move sys a b)"

definition shutil_copytree :: "'w sys \<Rightarrow> json \<Rightarrow> json \<Rightarrow> 'w st \<Rightarrow> (pyexn + unit) \<times> 'w st" where
  "shutil_copytree sys a b = update ''shutil.copytree'' [a, b] (fs_copytree sys a b)"

definition shutil_copy2 :: "'w sys \<Rightarrow> json \<Rightarrow> json \<Rightarrow> 'w st \<Rightarrow> (pyexn + unit) \<times> 'w st" where
  "shutil_copy2 sys a b = update ''shutil.copy2'' [a, b] (fs_copy2 sys a b)"

section \<open>The safety gate\<close>

text \<open>
  \<^verbatim>\<open>is_safe_path\<close>: the path is expanded and made absolute; any exception on the way
  gives \<^verbatim>\<open>False\<close>; otherwise the answer is whether the absolute path starts with none of
  the five prefixes of the tuple.
\<close>

definition deny_prefixes :: "string list" where
  "deny_prefixes =
     [''/etc'', ''/sys'', ''/proc'', ''C:'' @ [CHR 0x5C] @ ''Windows'',
      ''C:'' @ [CHR 0x5C] @ ''Program Files'']"

definition startswith_any :: "string \<Rightarrow> string list \<Rightarrow> bool" where
  "startswith_any s ps = list_ex (\<lambda>p. prefix p s) ps"

definition is_safe_path :: "'w sys \<Rightarrow> json \<Rightarrow> 'w \<Rightarrow> bool" where
  "is_safe_path sys file_path w =
     (case path_expanduser sys file_path w of
        Inl e \<Rightarrow> False
      | Inr expanded \<Rightarrow>
          (case path_abspath sys expanded w of
             Inl e \<Rightarrow> False
           | Inr abs_path \<Rightarrow> \<not> startswith_any abs_path deny_prefixes))"

section \<open>Tool results\<close>

definition text_result :: "string \<Rightarrow> json" where
  "text_result t = JDict [(''content'', JList [JDict [(''type'', JStr ''text''), (''text'', JStr t)]])]"

definition restricted :: "json" where
  "restricted = text_result ''Error: Access to this path is restricted''"

text \<open>What an f-string prints for a value: a \<^verbatim>\<open>str\<close> as it is, \<^verbatim>\<open>None\<close>, a bool and an int
  by their literals, anything else by the runtime's \<^verbatim>\<open>repr\<close>.\<close>

fun py_str :: "'w sys \<Rightarrow> json \<Rightarrow> string" where
  "py_str sys (JStr s) = s"
| "py_str sys JNull = ''None''"
| "py_str sys (JBool b) = (if b then ''True'' else ''False'')"
| "py_str sys (JInt i) = str_of_int i"
| "py_str sys v = value_repr sys v"

type_synonym 'w handler = "json \<Rightarrow> 'w st \<Rightarrow> (pyexn + json) \<times> 'w st"

section \<open>The nine handlers\<close>

text \<open>
  Each handler reads its arguments with \<^verbatim>\<open>args.get\<close> (which raises on a value that is
  not a dict), asks the gate, and runs its operation inside \<^verbatim>\<open>try\<close>; the
  \<^verbatim>\<open>except Exception\<close> clause turns an exception into a text result.
\<close>

definition binary_mime :: "string option \<Rightarrow> bool" where
  "binary_mime m =
     (case m of
        None \<Rightarrow> False
      | Some t \<Rightarrow> t \<noteq> [] \<and>
          startswith_any t [''image/'', ''audio/'', ''video/'', ''application/octet-stream''])"

definition read_file :: "'w sys \<Rightarrow> 'w handler" where
  "read_file sys args s =
     (case args of
        JDict d \<Rightarrow>
          (let file_path = dict_get d ''path'' (JStr '''');
               encoding = dict_get d ''encoding'' (JStr ''utf-8'')
           in if \<not> is_safe_path sys file_path (world s) then (Inr restricted, s)
              else
                (case guess_type sys file_path of
                   Inl e \<Rightarrow> (Inr (text_result (''Error reading file: '' @ exn_str e)), s)
                 | Inr mime_type \<Rightarrow>
                     if binary_mime mime_type then
                       (case open_read_bytes sys file_path s of
                          (Inl e, s1) \<Rightarrow> (Inr (text_result (''Error reading file: '' @ exn_str e)), s1)
                        | (Inr content, s1) \<Rightarrow>
                            (Inr (text_result (''Binary file (base64 encoded):'' @ [CHR 0x0A] @
                                                b64encode sys content)), s1))
                     else
                       (case open_read_text sys file_path encoding s of
                          (Inl e, s1) \<Rightarrow> (Inr (text_result (''Error reading file: '' @ exn_str e)), s1)
                        | (Inr content, s1) \<Rightarrow> (Inr (text_result content), s1))))
      | _ \<Rightarrow> (Inl (no_attribute args ''get''), s))"

definition write_file :: "'w sys \<Rightarrow> 'w handler" where
  "write_file sys args s =
     (case args of
        JDict d \<Rightarrow>
          (let file_path = dict_get d ''path'' (JStr '''');
               content = dict_get d ''content'' (JStr '''');
               encoding = dict_get d ''encoding'' (JStr ''utf-8'');
               append = dict_get d ''append'' (JBool False)
           in if \<not> is_safe_path sys file_path (world s) then (Inr restricted, s)
              else
                (case open_write sys file_path (if truthy append then ''a'' else ''w'')
                        encoding content s of
                   (Inl e, s1) \<Rightarrow> (Inr (text_result (''Error writing file: '' @ exn_str e)), s1)
                 | (Inr u, s1) \<Rightarrow>
                     (Inr (text_result (''Successfully '' @
                        (if truthy append then ''appended to'' else ''written to'') @
                        '' file: '' @ py_str sys file_path)), s1)))
      | _ \<Rightarrow> (Inl (no_attribute args ''get''), s))"

text \<open>The loop of \<^verbatim>\<open>list_files\<close> over the matches of the glob: a match that no longer
  exists is left out; \<^verbatim>\<open>os.stat\<close> raising ends the loop with the exception.\<close>

definition file_entry :: "string \<Rightarrow> bool \<Rightarrow> pystat \<Rightarrow> json" where
  "file_entry file_path is_dir stat =
     JDict [(''path'', JStr file_path),
            (''type'', JStr (if is_dir then ''dir'' else ''file'')),
            (''size'', JInt (st_size stat)),
            (''modified'', JFloat (st_mtime stat))]"

fun list_loop :: "'w sys \<Rightarrow> string list \<Rightarrow> 'w st \<Rightarrow> (pyexn + json list) \<times> 'w st" where
  "list_loop sys [] s = (Inr [], s)"
| "list_loop sys (file_path # files) s =
     (case os_path_exists sys (JStr file_path) s of
        (ex, s1) \<Rightarrow>
          if \<not> ex then list_loop sys files s1
          else
            (case os_stat sys (JStr file_path) s1 of
               (Inl e, s2) \<Rightarrow> (Inl e, s2)
             | (Inr stat, s2) \<Rightarrow>
                 (case os_path_isdir sys (JStr file_path) s2 of
                    (is_dir, s3) \<Rightarrow>
                      (case list_loop sys files s3 of
                         (Inl e, s4) \<Rightarrow> (Inl e, s4)
                       | (Inr file_list, s4) \<Rightarrow>
                           (Inr (file_entry file_path is_dir stat # file_list), s4)))))"

definition list_files :: "'w sys \<Rightarrow> 'w handler" where
  "list_files sys args s =
     (case args of
        JDict d \<Rightarrow>
          (let directory = dict_get d ''path'' (JStr ''.'');
               pattern = dict_get d ''pattern'' (JStr ''*'');
               recursive = dict_get d ''recursive'' (JBool False)
           in if \<not> is_safe_path sys directory (world s) then (Inr restricted, s)
              else
                (case path_join sys
                        (if truthy recursive then [directory, JStr ''**'', pattern]
                         else [directory, pattern]) of
                   Inl e \<Rightarrow> (Inr (text_result (''Error listing files: '' @ exn_str e)), s)
                 | Inr search_pattern \<Rightarrow>
                     (case glob_glob sys search_pattern (truthy recursive) s of
                        (Inl e, s1) \<Rightarrow> (Inr (text_result (''Error listing files: '' @ exn_str e)), s1)
                      | (Inr files, s1) \<Rightarrow>
                          (case list_loop sys files s1 of
                             (Inl e, s2) \<Rightarrow>
                               (Inr (text_result (''Error listing files: '' @ exn_str e)), s2)
                           | (Inr file_list, s2) \<Rightarrow>
                               (Inr (text_result (json_dumps_indent sys (JList file_list))), s2)))))
      | _ \<Rightarrow> (Inl (no_attribute args ''get''), s))"

definition create_directory :: "'w sys \<Rightarrow> 'w handler" where
  "create_directory sys args s =
     (case args of
        JDict d \<Rightarrow>
          (let dir_path = dict_get d ''path'' (JStr '''');
               parents = dict_get d ''parents'' (JBool True)
           in if \<not> is_safe_path sys dir_path (world s) then (Inr restricted, s)
              else
                (case path_mkdir sys dir_path parents s of
                   (Inl e, s1) \<Rightarrow> (Inr (text_result (''Error creating directory: '' @ exn_str e)), s1)
                 | (Inr u, s1) \<Rightarrow>
                     (Inr (text_result (''Successfully created directory: '' @ py_str sys dir_path)), s1)))
      | _ \<Rightarrow> (Inl (no_attribute args ''get''), s))"

definition delete_file :: "'w sys \<Rightarrow> 'w handler" where
  "delete_file sys args s =
     (case args of
        JDict d \<Rightarrow>
          (let file_path = dict_get d ''path'' (JStr '''');
               recursive = dict_get d ''recursive'' (JBool False)
           in if \<not> is_safe_path sys file_path (world s) then (Inr restricted, s)
              else
                (case os_path_isdir sys file_path s of
                   (is_dir, s1) \<Rightarrow>
                     (case (if is_dir
                            then (if truthy recursive then shutil_rmtree sys file_path s1
                                  else os_rmdir sys file_path s1)
                            else os_remove sys file_path s1) of
                        (Inl e, s2) \<Rightarrow> (Inr (text_result (''Error deleting file: '' @ exn_str e)), s2)
                      | (Inr u, s2) \<Rightarrow>
                          (Inr (text_result (''Successfully deleted: '' @ py_str sys file_path)), s2))))
      | _ \<Rightarrow> (Inl (no_attribute args ''get''), s))"

definition move_file :: "'w sys \<Rightarrow> 'w handler" where
  "move_file sys args s =
     (case args of
        JDict d \<Rightarrow>
          (let source = dict_get d ''source'' (JStr '''');
               destination = dict_get d ''destination'' (JStr '''')
           in if \<not> is_safe_path sys source (world s) \<or> \<not> is_safe_path sys destination (world s)
              then (Inr restricted, s)
              else
                (case shutil_move sys source destination s of
                   (Inl e, s1) \<Rightarrow> (Inr (text_result (''Error moving file: '' @ exn_str e)), s1)
                 | (Inr u, s1) \<Rightarrow>
                     (Inr (text_result (''Successfully moved '' @ py_str sys source @ '' to '' @
                                        py_str sys destination)), s1)))
      | _ \<Rightarrow> (Inl (no_attribute args ''get''), s))"

definition copy_file :: "'w sys \<Rightarrow> 'w handler" where
  "copy_file sys args s =
     (case args of
        JDict d \<Rightarrow>
          (let source = dict_get d ''source'' (JStr '''');
               destination = dict_get d ''destination'' (JStr '''');
               recursive = dict_get d ''recursive'' (JBool False)
           in if \<not> is_safe_path sys source (world s) \<or> \<not> is_safe_path sys destination (world s)
              then (Inr restricted, s)
              else
                (case os_path_isdir sys source s of
                   (is_dir, s1) \<Rightarrow>
                     if is_dir \<and> \<not> truthy recursive
                     then (Inr (text_result ''Error: Use recursive=true to copy directories''), s1)
                     else
                       (case (if is_dir then shutil_copytree sys source destination s1
                              else shutil_copy2 sys source destination s1) of
                          (Inl e, s2) \<Rightarrow> (Inr (text_result (''Error copying file: '' @ exn_str e)), s2)
                        | (Inr u, s2) \<Rightarrow>
                            (Inr (text_result (''Successfully copied '' @ py_str sys source @ '' to '' @
                                               py_str sys destination)), s2))))
      | _ \<Rightarrow> (Inl (no_attribute args ''get''), s))"

text \<open>
  \<^verbatim>\<open>_human_readable_size\<close>: the value after \<open>k\<close> divisions by 1024.0 is \<open>n / 1024 ^ k\<close>; the
  test \<^verbatim>\<open>size < 1024.0\<close> is then \<open>n < 1024 * 1024 ^ k\<close>, and the text with two decimals
  is the runtime's.
\<close>

fun human_loop :: "'w sys \<Rightarrow> int \<Rightarrow> nat \<Rightarrow> string list \<Rightarrow> string" where
  "human_loop sys n k [] = format_2f sys n k @ '' PB''"
| "human_loop sys n k (unit # units) =
     (if n < 1024 * 1024 ^ k then format_2f sys n k @ '' '' @ unit
      else human_loop sys n (Suc k) units)"

definition human_readable_size :: "'w sys \<Rightarrow> int \<Rightarrow> string" where
  "human_readable_size sys n = human_loop sys n 0 [''B'', ''KB'', ''MB'', ''GB'', ''TB'']"

definition file_info :: "'w sys \<Rightarrow> json \<Rightarrow> string \<Rightarrow> bool \<Rightarrow> pystat \<Rightarrow> (string \<times> json) list" where
  "file_info sys file_path absolute is_dir stat =
     [(''path'', file_path),
      (''absolute_path'', JStr absolute),
      (''type'', JStr (if is_dir then ''directory'' else ''file'')),
      (''size'', JInt (st_size stat)),
      (''size_readable'', JStr (human_readable_size sys (st_size stat))),
      (''created'', JFloat (st_ctime stat)),
      (''modified'', JFloat (st_mtime stat)),
      (''accessed'', JFloat (st_atime stat)),
      (''permissions'', JStr (last_chars 3 (oct (st_mode stat)))),
      (''owner'', JInt (st_uid stat)),
      (''group'', JInt (st_gid stat))]"

definition mime_json :: "string option \<Rightarrow> json" where
  "mime_json m = (case m of None \<Rightarrow> JNull | Some t \<Rightarrow> JStr t)"

text \<open>The part of \<^verbatim>\<open>get_file_info\<close> after \<^verbatim>\<open>os.path.exists\<close> answered yes; an exception
  of any step leaves through \<^verbatim>\<open>Inl\<close> to the handler's \<^verbatim>\<open>except\<close> clause.\<close>

definition file_info_body :: "'w sys \<Rightarrow> json \<Rightarrow> 'w st \<Rightarrow> (pyexn + string) \<times> 'w st" where
  "file_info_body sys file_path s0 =
     (case os_stat sys file_path s0 of
        (Inl e, s1) \<Rightarrow> (Inl e, s1)
      | (Inr stat, s1) \<Rightarrow>
          (case path_absolute sys file_path (world s1) of
             Inl e \<Rightarrow> (Inl e, s1)
           | Inr absolute \<Rightarrow>
               (case os_path_isdir sys file_path s1 of
                  (is_dir, s2) \<Rightarrow>
                    (let info = file_info sys file_path absolute is_dir stat in
                     case os_path_isfile sys file_path s2 of
                       (is_file, s3) \<Rightarrow>
                         if \<not> is_file then (Inr (json_dumps_indent sys (JDict info)), s3)
                         else
                           (case guess_type sys file_path of
                              Inl e \<Rightarrow> (Inl e, s3)
                            | Inr mime_type \<Rightarrow>
                                (let info1 = info @ [(''mime_type'', mime_json mime_type)] in
                                 if st_size stat < 100 * 1024 * 1024 then
                                   (case open_read_bytes sys file_path s3 of
                                      (Inl e, s4) \<Rightarrow> (Inl e, s4)
                                    | (Inr content, s4) \<Rightarrow>
                                        (Inr (json_dumps_indent sys
                                           (JDict (info1 @ [(''md5'', JStr (md5_hexdigest sys content))]))),
                                         s4))
                                 else (Inr (json_dumps_indent sys (JDict info1)), s3)))))))"

definition get_file_info :: "'w sys \<Rightarrow> 'w handler" where
  "get_file_info sys args s =
     (case args of
        JDict d \<Rightarrow>
          (let file_path = dict_get d ''path'' (JStr '''')
           in if \<not> is_safe_path sys file_path (world s) then (Inr restricted, s)
              else
                (case os_path_exists sys file_path s of
                   (ex, s0) \<Rightarrow>
                     if \<not> ex then (Inr (text_result (''File not found: '' @ py_str sys file_path)), s0)
                     else
                       (case file_info_body sys file_path s0 of
                          (Inl e, s1) \<Rightarrow>
                            (Inr (text_result (''Error getting file info: '' @ exn_str e)), s1)
                        | (Inr t, s1) \<Rightarrow> (Inr (text_result t), s1))))
      | _ \<Rightarrow> (Inl (no_attribute args ''get''), s))"

text \<open>Text search: \<^verbatim>\<open>pat in s\<close>, \<^verbatim>\<open>s.split(sep)\<close> and the numbered lines of a file.\<close>

fun occurs_in :: "string \<Rightarrow> string \<Rightarrow> bool" where
  "occurs_in pat [] = (pat = [])"
| "occurs_in pat (c # cs) = (prefix pat (c # cs) \<or> occurs_in pat cs)"

fun split_on :: "char \<Rightarrow> string \<Rightarrow> string list" where
  "split_on sep [] = [[]]"
| "split_on sep (c # cs) =
     (if c = sep then [] # split_on sep cs
      else (case split_on sep cs of [] \<Rightarrow> [[c]] | l # ls \<Rightarrow> (c # l) # ls))"

definition numbered_lines :: "string \<Rightarrow> (nat \<times> string) list" where
  "numbered_lines content =
     (let lines = split_on (CHR 0x0A) content in zip [1 ..< Suc (length lines)] lines)"

definition line_matches :: "'w sys \<Rightarrow> string \<Rightarrow> nat \<times> string \<Rightarrow> bool" where
  "line_matches sys pat il = occurs_in (str_lower sys pat) (str_lower sys (snd il))"

definition match_entry :: "'w sys \<Rightarrow> nat \<times> string \<Rightarrow> json" where
  "match_entry sys il =
     JDict [(''line_number'', JInt (int (fst il))),
            (''content'', JStr (take 100 (str_strip sys (snd il))))]"

definition matching_lines :: "'w sys \<Rightarrow> string \<Rightarrow> string \<Rightarrow> json list" where
  "matching_lines sys pat content =
     map (match_entry sys) (filter (line_matches sys pat) (numbered_lines content))"

text \<open>What one readable file adds to \<^verbatim>\<open>results\<close>. A pattern that is not a \<^verbatim>\<open>str\<close> has no
  \<^verbatim>\<open>lower\<close>: the \<^verbatim>\<open>AttributeError\<close> is swallowed by the bare \<^verbatim>\<open>except\<close> and the file adds
  nothing.\<close>

definition search_content :: "'w sys \<Rightarrow> json \<Rightarrow> string \<Rightarrow> string \<Rightarrow> json option" where
  "search_content sys search_pattern file_path content =
     (case search_pattern of
        JStr pat \<Rightarrow>
          if occurs_in (str_lower sys pat) (str_lower sys content)
          then Some (JDict [(''file'', JStr file_path),
                            (''matches'', JList (take 5 (matching_lines sys pat content)))])
          else None
      | _ \<Rightarrow> None)"

fun search_loop :: "'w sys \<Rightarrow> json \<Rightarrow> string list \<Rightarrow> 'w st \<Rightarrow> json list \<times> 'w st" where
  "search_loop sys search_pattern [] s = ([], s)"
| "search_loop sys search_pattern (file_path # files) s =
     (case os_path_isfile sys (JStr file_path) s of
        (is_file, s1) \<Rightarrow>
          if \<not> is_file then search_loop sys search_pattern files s1
          else
            (case open_read_lenient sys (JStr file_path) s1 of
               (Inl e, s2) \<Rightarrow> search_loop sys search_pattern files s2
             | (Inr content, s2) \<Rightarrow>
                 (case search_loop sys search_pattern files s2 of
                    (results, s3) \<Rightarrow>
                      (case search_content sys search_pattern file_path content of
                         None \<Rightarrow> (results, s3)
                       | Some r \<Rightarrow> (r # results, s3)))))"

definition search_files :: "'w sys \<Rightarrow> 'w handler" where
  "search_files sys args s =
     (case args of
        JDict d \<Rightarrow>
          (let directory = dict_get d ''directory'' (JStr ''.'');
               search_pattern = dict_get d ''pattern'' (JStr '''');
               file_pattern = dict_get d ''file_pattern'' (JStr ''*'')
           in if \<not> is_safe_path sys directory (world s) then (Inr restricted, s)
              else
                (case path_join sys [directory, JStr ''**'', file_pattern] of
                   Inl e \<Rightarrow> (Inr (text_result (''Error searching files: '' @ exn_str e)), s)
                 | Inr search_path \<Rightarrow>
                     (case glob_glob sys search_path True s of
                        (Inl e, s1) \<Rightarrow>
                          (Inr (text_result (''Error searching files: '' @ exn_str e)), s1)
                      | (Inr files, s1) \<Rightarrow>
                          (case search_loop sys search_pattern files s1 of
                             (results, s2) \<Rightarrow>
                               (Inr (text_result
                                  (if results \<noteq> [] then json_dumps_indent sys (JList results)
                                   else ''No matches found'')), s2)))))
      | _ \<Rightarrow> (Inl (no_attribute args ''get''), s))"

section \<open>The tool registry\<close>

text \<open>\<^verbatim>\<open>self.tools\<close>, in insertion order: the name of each tool, its description and its
  input schema.\<close>

definition arg :: "string \<Rightarrow> string \<Rightarrow> string \<Rightarrow> string \<times> json" where
  "arg name ty description =
     (name, JDict [(''type'', JStr ty), (''description'', JStr description)])"

definition arg_default :: "string \<Rightarrow> string \<Rightarrow> string \<Rightarrow> json \<Rightarrow> string \<times> json" where
  "arg_default name ty description dflt =
     (name, JDict [(''type'', JStr ty), (''description'', JStr description), (''default'', dflt)])"

definition schema :: "(string \<times> json) list \<Rightarrow> string list \<Rightarrow> json" where
  "schema props required =
     JDict [(''type'', JStr ''object''), (''properties'', JDict props),
            (''required'', JList (map JStr required))]"

definition tools :: "(string \<times> string \<times> json) list" where
  "tools =
    [(''read_file'', ''Read contents of a file'',
        schema [arg ''path'' ''string'' ''Path to the file to read'',
                arg_default ''encoding'' ''string'' ''File encoding'' (JStr ''utf-8'')]
               [''path'']),
     (''write_file'', ''Write content to a file'',
        schema [arg ''path'' ''string'' ''Path to the file to write'',
                arg ''content'' ''string'' ''Content to write to the file'',
                arg_default ''encoding'' ''string'' ''File encoding'' (JStr ''utf-8''),
                arg_default ''append'' ''boolean'' ''Append to file instead of overwriting''
                  (JBool False)]
               [''path'', ''content'']),
     (''list_files'', ''List files in a directory'',
        JDict [(''type'', JStr ''object''),
               (''properties'', JDict
                 [arg_default ''path'' ''string'' ''Directory path'' (JStr ''.''),
                  arg_default ''pattern'' ''string'' ''Glob pattern for filtering'' (JStr ''*''),
                  arg_default ''recursive'' ''boolean'' ''Search recursively'' (JBool False)])]),
     (''create_directory'', ''Create a directory'',
        schema [arg ''path'' ''string'' ''Directory path to create'',
                arg_default ''parents'' ''boolean'' ''Create parent directories if needed''
                  (JBool True)]
               [''path'']),
     (''delete_file'', ''Delete a file or directory'',
        schema [arg ''path'' ''string'' ''Path to delete'',
                arg_default ''recursive'' ''boolean'' ''Delete directories recursively''
                  (JBool False)]
               [''path'']),
     (''move_file'', ''Move or rename a file or directory'',
        schema [arg ''source'' ''string'' ''Source path'',
                arg ''destination'' ''string'' ''Destination path'']
               [''source'', ''destination'']),
     (''copy_file'', ''Copy a file or directory'',
        schema [arg ''source'' ''string'' ''Source path'',
                arg ''destination'' ''string'' ''Destination path'',
                arg_default ''recursive'' ''boolean'' ''Copy directories recursively''
                  (JBool False)]
               [''source'', ''destination'']),
     (''get_file_info'', ''Get detailed information about a file'',
        schema [arg ''path'' ''string'' ''File path''] [''path'']),
     (''search_files'', ''Search for files containing specific text'',
        schema [arg_default ''directory'' ''string'' ''Directory to search in'' (JStr ''.''),
                arg ''pattern'' ''string'' ''Text pattern to search for'',
                arg_default ''file_pattern'' ''string'' ''File pattern to search in'' (JStr ''*'')]
               [''pattern''])]"

section \<open>The dispatcher\<close>

definition initialize_result :: json where
  "initialize_result =
     JDict [(''protocolVersion'', JStr ''2024-11-05''),
            (''capabilities'', JDict [(''tools'', JDict []), (''resources'', JDict [])]),
            (''serverInfo'', JDict [(''name'', JStr ''file-manager''),
                                    (''version'', JStr ''1.0.0'')])]"

definition handle_initialize :: "'w handler" where
  "handle_initialize request s = (Inr initialize_result, s)"

definition tool_descriptor :: "string \<times> string \<times> json \<Rightarrow> json" where
  "tool_descriptor t =
     JDict [(''name'', JStr (fst t)), (''description'', JStr (fst (snd t))),
            (''inputSchema'', snd (snd t))]"

definition handle_list_tools :: "'w handler" where
  "handle_list_tools request s = (Inr (JDict [(''tools'', JList (map tool_descriptor tools))]), s)"

definition tool_handlers :: "'w sys \<Rightarrow> (string \<times> 'w handler) list" where
  "tool_handlers sys =
     [(''read_file'', read_file sys),
      (''write_file'', write_file sys),
      (''list_files'', list_files sys),
      (''create_directory'', create_directory sys),
      (''delete_file'', delete_file sys),
      (''move_file'', move_file sys),
      (''copy_file'', copy_file sys),
      (''get_file_info'', get_file_info sys),
      (''search_files'', search_files sys)]"

text \<open>\<^verbatim>\<open>table.get(key)\<close> on a table with string keys: only a \<^verbatim>\<open>str\<close> can be found.\<close>

definition table_get :: "(string \<times> 'a) list \<Rightarrow> json \<Rightarrow> 'a option" where
  "table_get table key = (case key of JStr k \<Rightarrow> map_of table k | _ \<Rightarrow> None)"

definition unknown_tool :: "'w sys \<Rightarrow> json \<Rightarrow> json" where
  "unknown_tool sys tool_name =
     JDict [(''error'', JDict [(''code'', JInt (- 32601)),
                               (''message'', JStr (''Unknown tool: '' @ py_str sys tool_name))])]"

definition handle_call_tool :: "'w sys \<Rightarrow> 'w handler" where
  "handle_call_tool sys request s =
     (case value_get request ''params'' (JDict []) of
        Inl e \<Rightarrow> (Inl e, s)
      | Inr params \<Rightarrow>
          (case value_get params ''name'' JNull of
             Inl e \<Rightarrow> (Inl e, s)
           | Inr tool_name \<Rightarrow>
               (case value_get params ''arguments'' (JDict []) of
                  Inl e \<Rightarrow> (Inl e, s)
                | Inr arguments \<Rightarrow>
                    if \<not> hashable tool_name then (Inl (unhashable tool_name), s)
                    else
                      (case table_get (tool_handlers sys) tool_name of
                         Some handler \<Rightarrow> handler arguments s
                       | None \<Rightarrow> (Inr (unknown_tool sys tool_name), s)))))"

definition handlers :: "'w sys \<Rightarrow> (string \<times> 'w handler) list" where
  "handlers sys =
     [(''initialize'', handle_initialize),
      (''tools/list'', handle_list_tools),
      (''tools/call'', handle_call_tool sys)]"

definition rpc_error :: "json \<Rightarrow> int \<Rightarrow> string \<Rightarrow> json" where
  "rpc_error rid code message =
     JDict [(''jsonrpc'', JStr ''2.0''), (''id'', rid),
            (''error'', JDict [(''code'', JInt code), (''message'', JStr message)])]"

definition rpc_result :: "json \<Rightarrow> json \<Rightarrow> json" where
  "rpc_result rid result = JDict [(''jsonrpc'', JStr ''2.0''), (''id'', rid), (''result'', result)]"

text \<open>\<^verbatim>\<open>handle_request\<close>: \<^verbatim>\<open>request.get("method")\<close> and the table lookup stand outside
  the \<^verbatim>\<open>try\<close>, so their exceptions leave the function; an exception of the handler becomes
  the error \<open>-32603\<close>.\<close>

definition handle_request :: "'w sys \<Rightarrow> 'w handler" where
  "handle_request sys request s =
     (case value_get request ''method'' JNull of
        Inl e \<Rightarrow> (Inl e, s)
      | Inr method \<Rightarrow>
          if \<not> hashable method then (Inl (unhashable method), s)
          else
            (case table_get (handlers sys) method of
               Some handler \<Rightarrow>
                 (case value_get request ''id'' JNull of
                    Inl e \<Rightarrow> (Inl e, s)
                  | Inr rid \<Rightarrow>
                      (case handler request s of
                         (Inr result, s1) \<Rightarrow> (Inr (rpc_result rid result), s1)
                       | (Inl e, s1) \<Rightarrow> (Inr (rpc_error rid (- 32603) (exn_str e)), s1)))
             | None \<Rightarrow>
                 (case value_get request ''id'' JNull of
                    Inl e \<Rightarrow> (Inl e, s)
                  | Inr rid \<Rightarrow>
                      (Inr (rpc_error rid (- 32601) (''Method not found: '' @ py_str sys method)), s))))"

section \<open>The request loop\<close>




section \<open>Reading a result\<close>

text \<open>The members of a response and the blocks of a tool result, as a caller reads them.\<close>

definition member :: "json \<Rightarrow> string \<Rightarrow> json option" where
  "member v k = (case v of JDict d \<Rightarrow> map_of d k | _ \<Rightarrow> None)"



text \<open>The path-valued arguments of each tool, with the default its handler reads them
  with: \<^verbatim>\<open>source\<close> and \<^verbatim>\<open>destination\<close> for the two-path tools, \<^verbatim>\<open>directory\<close> for the search,
  \<^verbatim>\<open>path\<close> for the others.\<close>

definition path_arguments :: "string \<Rightarrow> (string \<times> json) list" where
  "path_arguments tool =
     (if tool = ''list_files'' then [(''path'', JStr ''.'')]
      else if tool = ''search_files'' then [(''directory'', JStr ''.'')]
      else if tool = ''move_file'' \<or> tool = ''copy_file''
      then [(''source'', JStr ''''), (''destination'', JStr '''')]
      else [(''path'', JStr '''')])"

text \<open>The request of the specification's example: a call of the tool \<^verbatim>\<open>not_a_tool\<close>.\<close>

definition request_not_a_tool :: json where
  "request_not_a_tool =
     JDict [(''jsonrpc'', JStr ''2.0''), (''id'', JInt 1), (''method'', JStr ''tools/call''),
            (''params'', JDict [(''name'', JStr ''not_a_tool''), (''arguments'', JDict [])])]"

text \<open>What the search records for one path of the glob, on a machine \<open>w\<close>: nothing for a
  path that is not a regular file or cannot be read.\<close>

definition searched :: "'w sys \<Rightarrow> json \<Rightarrow> 'w \<Rightarrow> string \<Rightarrow> json option" where
  "searched sys search_pattern w file_path =
     (if fs_isfile sys (JStr file_path) w then
        (case fs_read_lenient sys (JStr file_path) w of
           Inl e \<Rightarrow> None
         | Inr content \<Rightarrow> search_content sys search_pattern file_path content)
      else None)"

section \<open>A POSIX machine\<close>

text \<open>
  To state what the handlers do to files, the file-system collaborators are modelled on a
  machine with a directory tree, a working directory and a home directory: a POSIX file
  system without links, permissions or special files, where nothing else runs between
  two calls. A file is its content and the attributes \<^verbatim>\<open>shutil.copystat\<close> carries over
  (mode, modification and access time); a directory is the list of its entries. The
  working directory is a place in the tree; once that directory has been removed it is
  gone for good (\<open>cwd_gone\<close>), also when a directory of the same name is made later: paths
  relative to it no longer resolve and \<^verbatim>\<open>os.getcwd\<close> raises.
\<close>

record fattr =
  f_mode :: nat
  f_mtime :: pyfloat
  f_atime :: pyfloat

datatype node = File string fattr | Dir "(string \<times> node) list"

datatype kind = KFile | KDir

record machine =
  root :: node
  cwd :: "string list"
  cwd_gone :: bool
  home :: "string option"
  users :: "(string \<times> string) list"

text \<open>A node is addressed by the names on the way from the root.\<close>

fun lookup :: "node \<Rightarrow> string list \<Rightarrow> node option" where
  "lookup t [] = Some t"
| "lookup (File c a) (x # xs) = None"
| "lookup (Dir es) (x # xs) = (case map_of es x of None \<Rightarrow> None | Some n \<Rightarrow> lookup n xs)"

text \<open>\<open>put t p v\<close> sets (\<open>Some\<close>) or removes (\<open>None\<close>) the entry at \<open>p\<close>, when the parent of
  \<open>p\<close> is a directory of \<open>t\<close>; otherwise \<open>t\<close> is unchanged.\<close>

fun put :: "node \<Rightarrow> string list \<Rightarrow> node option \<Rightarrow> node" where
  "put t [] v = (case v of None \<Rightarrow> t | Some n \<Rightarrow> n)"
| "put (File c a) (x # xs) v = File c a"
| "put (Dir es) (x # xs) v =
     (if xs = [] then
        Dir (case v of None \<Rightarrow> AList.delete x es | Some n \<Rightarrow> AList.update x n es)
      else
        (case map_of es x of
           None \<Rightarrow> Dir es
         | Some n \<Rightarrow> Dir (AList.update x (put n xs v) es)))"

definition kind :: "node \<Rightarrow> string list \<Rightarrow> kind option" where
  "kind t p =
     (case lookup t p of
        None \<Rightarrow> None
      | Some (File c a) \<Rightarrow> Some KFile
      | Some (Dir es) \<Rightarrow> Some KDir)"

text \<open>The errors of the system calls; \<open>ENUL\<close> is the \<^verbatim>\<open>ValueError\<close> Python raises itself
  on a path with an embedded null character.\<close>

datatype oserr = ENOENT | ENOTDIR | EEXIST | ENOTEMPTY | EISDIR | EINVAL | EBUSY | ENUL

fun oserr_class :: "oserr \<Rightarrow> string" where
  "oserr_class ENOENT = ''FileNotFoundError''"
| "oserr_class ENOTDIR = ''NotADirectoryError''"
| "oserr_class EEXIST = ''FileExistsError''"
| "oserr_class ENOTEMPTY = ''OSError''"
| "oserr_class EISDIR = ''IsADirectoryError''"
| "oserr_class EINVAL = ''OSError''"
| "oserr_class EBUSY = ''OSError''"
| "oserr_class ENUL = ''ValueError''"

fun oserr_text :: "oserr \<Rightarrow> string" where
  "oserr_text ENOENT = ''[Errno 2] No such file or directory''"
| "oserr_text ENOTDIR = ''[Errno 20] Not a directory''"
| "oserr_text EEXIST = ''[Errno 17] File exists''"
| "oserr_text ENOTEMPTY = ''[Errno 39] Directory not empty''"
| "oserr_text EISDIR = ''[Errno 21] Is a directory''"
| "oserr_text EINVAL = ''[Errno 22] Invalid argument''"
| "oserr_text EBUSY = ''[Errno 16] Device or resource busy''"
| "oserr_text ENUL = ''embedded null byte''"

text \<open>The exception of a failed call on the path \<open>p\<close>; the quoting of the path in the
  message is \<^verbatim>\<open>repr\<close>'s for a path without quotes or escapes.\<close>

definition os_error :: "oserr \<Rightarrow> string \<Rightarrow> pyexn" where
  "os_error e p =
     PyExn (oserr_class e)
       (if e = ENUL then oserr_text e
        else oserr_text e @ '': '' @ quoted p)"

subsection \<open>Path resolution by the kernel\<close>

text \<open>
  The names of a path are walked from the root (absolute path) or the working directory:
  every step needs a directory to stand in; an empty name and \<^verbatim>\<open>.\<close> stay, \<^verbatim>\<open>..\<close> goes to
  the parent (the root is its own parent), any other name must be an entry.
\<close>

fun walk :: "node \<Rightarrow> string list \<Rightarrow> string list \<Rightarrow> oserr + string list" where
  "walk t cur [] = Inr cur"
| "walk t cur (x # xs) =
     (case kind t cur of
        None \<Rightarrow> Inl ENOENT
      | Some KFile \<Rightarrow> Inl ENOTDIR
      | Some KDir \<Rightarrow>
          if x = [] \<or> x = ''.'' then walk t cur xs
          else if x = ''..'' then walk t (butlast cur) xs
          else if kind t (cur @ [x]) = None then Inl ENOENT
          else walk t (cur @ [x]) xs)"

definition start :: "machine \<Rightarrow> string \<Rightarrow> string list" where
  "start m p = (if prefix ''/'' p then [] else cwd m)"

definition names :: "string \<Rightarrow> string list" where
  "names p = split_on (CHR ''/'') p"

definition walk_from :: "machine \<Rightarrow> string \<Rightarrow> string list \<Rightarrow> oserr + string list" where
  "walk_from m p ts =
     (if \<not> prefix ''/'' p \<and> cwd_gone m then Inl ENOENT
      else walk (root m) (start m p) ts)"

definition namei :: "machine \<Rightarrow> string \<Rightarrow> oserr + string list" where
  "namei m p =
     (if p = [] then Inl ENOENT
      else if CHR 0x00 \<in> set p then Inl ENUL
      else walk_from m p (names p))"

definition kind_at :: "machine \<Rightarrow> string \<Rightarrow> kind option" where
  "kind_at m p = (case namei m p of Inl e \<Rightarrow> None | Inr c \<Rightarrow> kind (root m) c)"

definition posix_exists :: "machine \<Rightarrow> string \<Rightarrow> bool" where
  "posix_exists m p = (kind_at m p \<noteq> None)"

definition posix_isdir :: "machine \<Rightarrow> string \<Rightarrow> bool" where
  "posix_isdir m p = (kind_at m p = Some KDir)"

definition posix_isfile :: "machine \<Rightarrow> string \<Rightarrow> bool" where
  "posix_isfile m p = (kind_at m p = Some KFile)"

text \<open>The place a call creates or removes: the names but the last are walked, the last is
  returned with the directory reached. Trailing slashes are dropped first where the call
  ignores them.\<close>

definition strip_trailing :: "string list \<Rightarrow> string list" where
  "strip_trailing ts = rev (dropWhile (\<lambda>t. t = []) (rev ts))"

definition final_name :: "string \<Rightarrow> string" where
  "final_name p = (case rev (strip_trailing (names p)) of [] \<Rightarrow> [] | x # xs \<Rightarrow> x)"

definition parent_of :: "machine \<Rightarrow> string \<Rightarrow> string list \<Rightarrow> oserr + string list" where
  "parent_of m p ts =
     (case walk_from m p (butlast ts) of
        Inl e \<Rightarrow> Inl e
      | Inr cur \<Rightarrow>
          (case kind (root m) cur of
             None \<Rightarrow> Inl ENOENT
           | Some KFile \<Rightarrow> Inl ENOTDIR
           | Some KDir \<Rightarrow> Inr cur))"

subsection \<open>The system calls\<close>

text \<open>Removing the entry at \<open>c\<close>, and emptying the directory at \<open>c\<close>: the working directory
  is gone when it was the entry or inside it.\<close>

definition remove_at :: "machine \<Rightarrow> string list \<Rightarrow> machine" where
  "remove_at m c =
     m\<lparr>root := put (root m) c None, cwd_gone := (cwd_gone m \<or> prefix c (cwd m))\<rparr>"

definition empty_at :: "machine \<Rightarrow> string list \<Rightarrow> machine" where
  "empty_at m c =
     m\<lparr>root := put (root m) c (Some (Dir [])),
       cwd_gone := (cwd_gone m \<or> strict_prefix c (cwd m))\<rparr>"

definition place_at :: "machine \<Rightarrow> string list \<Rightarrow> node \<Rightarrow> machine" where
  "place_at m c n = m\<lparr>root := put (root m) c (Some n)\<rparr>"

definition os_mkdir :: "machine \<Rightarrow> string \<Rightarrow> oserr + machine" where
  "os_mkdir m p =
     (if p = [] then Inl ENOENT
      else if CHR 0x00 \<in> set p then Inl ENUL
      else if strip_trailing (names p) = [] then Inl EEXIST
      else
        (case parent_of m p (strip_trailing (names p)) of
           Inl e \<Rightarrow> Inl e
         | Inr cur \<Rightarrow>
             if final_name p = ''.'' \<or> final_name p = ''..'' then Inl EEXIST
             else if kind (root m) (cur @ [final_name p]) \<noteq> None then Inl EEXIST
             else Inr (place_at m (cur @ [final_name p]) (Dir []))))"

text \<open>\<^verbatim>\<open>rmdir\<close> refuses a path that ends in \<^verbatim>\<open>..\<close> or \<^verbatim>\<open>.\<close> and the root, then anything that is
  not an empty directory.\<close>

definition os_rmdir_call :: "machine \<Rightarrow> string \<Rightarrow> oserr + machine" where
  "os_rmdir_call m p =
     (case namei m p of
        Inl e \<Rightarrow> Inl e
      | Inr c \<Rightarrow>
          if final_name p = ''..'' then Inl ENOTEMPTY
          else if final_name p = ''.'' then Inl EINVAL
          else if c = [] then Inl EBUSY
          else
            (case lookup (root m) c of
               None \<Rightarrow> Inl ENOENT
             | Some (File content a) \<Rightarrow> Inl ENOTDIR
             | Some (Dir es) \<Rightarrow>
                 if es \<noteq> [] then Inl ENOTEMPTY
                 else Inr (remove_at m c)))"

definition os_unlink :: "machine \<Rightarrow> string \<Rightarrow> oserr + machine" where
  "os_unlink m p =
     (case namei m p of
        Inl e \<Rightarrow> Inl e
      | Inr c \<Rightarrow>
          (case lookup (root m) c of
             None \<Rightarrow> Inl ENOENT
           | Some (Dir es) \<Rightarrow> Inl EISDIR
           | Some (File content a) \<Rightarrow> Inr (remove_at m c)))"

text \<open>\<^verbatim>\<open>shutil.rmtree\<close>: the path must be a directory; everything in it is removed, then
  \<^verbatim>\<open>os.rmdir\<close> is called on the path as given, in the machine as it then is. When that
  raises, the content is gone all the same.\<close>

definition posix_rmtree :: "machine \<Rightarrow> string \<Rightarrow> (oserr + unit) \<times> machine" where
  "posix_rmtree m p =
     (case namei m p of
        Inl e \<Rightarrow> (Inl e, m)
      | Inr c \<Rightarrow>
          (case lookup (root m) c of
             None \<Rightarrow> (Inl ENOENT, m)
           | Some (File content a) \<Rightarrow> (Inl ENOTDIR, m)
           | Some (Dir es) \<Rightarrow>
               (case os_rmdir_call (empty_at m c) p of
                  Inl e \<Rightarrow> (Inl e, empty_at m c)
                | Inr m2 \<Rightarrow> (Inr (), m2))))"

text \<open>\<^verbatim>\<open>os.remove\<close> is \<^verbatim>\<open>unlink\<close>; \<^verbatim>\<open>os.rmdir\<close> is the call above.\<close>

definition lift_call :: "(oserr + machine) \<Rightarrow> machine \<Rightarrow> (oserr + unit) \<times> machine" where
  "lift_call r m = (case r of Inl e \<Rightarrow> (Inl e, m) | Inr m' \<Rightarrow> (Inr (), m'))"

definition posix_rmdir :: "machine \<Rightarrow> string \<Rightarrow> (oserr + unit) \<times> machine" where
  "posix_rmdir m p = lift_call (os_rmdir_call m p) m"

definition posix_remove :: "machine \<Rightarrow> string \<Rightarrow> (oserr + unit) \<times> machine" where
  "posix_remove m p = lift_call (os_unlink m p) m"

subsection \<open>\<^verbatim>\<open>pathlib\<close>: \<^verbatim>\<open>Path(p).mkdir(parents=..., exist_ok=True)\<close>\<close>

text \<open>
  A \<^verbatim>\<open>Path\<close> is its root (\<^verbatim>\<open>/\<close>, \<^verbatim>\<open>//\<close> or none) and its parts: the names of the string that
  are neither empty nor \<^verbatim>\<open>.\<close>. The parts are kept last name first, so that the parent is
  the tail. \<^verbatim>\<open>mkdir\<close> calls \<^verbatim>\<open>os.mkdir\<close> on the path; on \<^verbatim>\<open>FileNotFoundError\<close> with \<^verbatim>\<open>parents\<close>
  it makes the parent (with parents) and then the path (without); on another \<^verbatim>\<open>OSError\<close> it
  returns normally when the path is a directory and raises otherwise; a \<^verbatim>\<open>ValueError\<close>
  is not caught. The exception names the path of the \<^verbatim>\<open>os.mkdir\<close> that failed.
\<close>

fun slash_join :: "string list \<Rightarrow> string" where
  "slash_join [] = []"
| "slash_join [x] = x"
| "slash_join (x # y # ys) = x @ ''/'' @ slash_join (y # ys)"

definition path_root :: "string \<Rightarrow> string" where
  "path_root p =
     (if prefix ''//'' p \<and> \<not> prefix ''///'' p then ''//''
      else if prefix ''/'' p then ''/'' else [])"

definition path_parts :: "string \<Rightarrow> string list" where
  "path_parts p = rev (filter (\<lambda>x. x \<noteq> [] \<and> x \<noteq> ''.'') (names p))"

definition path_str :: "string \<Rightarrow> string list \<Rightarrow> string" where
  "path_str r rparts = (if r = [] \<and> rparts = [] then ''.'' else r @ slash_join (rev rparts))"

definition mkdir_exist_ok :: "machine \<Rightarrow> string \<Rightarrow> (pyexn + unit) \<times> machine" where
  "mkdir_exist_ok m p =
     (case os_mkdir m p of
        Inr m' \<Rightarrow> (Inr (), m')
      | Inl e \<Rightarrow>
          if e = ENOENT \<or> e = ENUL then (Inl (os_error e p), m)
          else if posix_isdir m p then (Inr (), m)
          else (Inl (os_error e p), m))"

fun mkdir_parents :: "machine \<Rightarrow> string \<Rightarrow> string list \<Rightarrow> (pyexn + unit) \<times> machine" where
  "mkdir_parents m r [] = mkdir_exist_ok m (path_str r [])"
| "mkdir_parents m r (x # rest) =
     (case os_mkdir m (path_str r (x # rest)) of
        Inr m' \<Rightarrow> (Inr (), m')
      | Inl e \<Rightarrow>
          if e = ENOENT then
            (case mkdir_parents m r rest of
               (Inl e1, m1) \<Rightarrow> (Inl e1, m1)
             | (Inr u, m1) \<Rightarrow> mkdir_exist_ok m1 (path_str r (x # rest)))
          else if e = ENUL then (Inl (os_error e (path_str r (x # rest))), m)
          else if posix_isdir m (path_str r (x # rest)) then (Inr (), m)
          else (Inl (os_error e (path_str r (x # rest))), m))"

definition posix_mkdir :: "machine \<Rightarrow> string \<Rightarrow> json \<Rightarrow> (pyexn + unit) \<times> machine" where
  "posix_mkdir m p parents =
     (if truthy parents then mkdir_parents m (path_root p) (path_parts p)
      else mkdir_exist_ok m (path_str (path_root p) (path_parts p)))"

subsection \<open>\<^verbatim>\<open>posixpath\<close>: \<^verbatim>\<open>join\<close>, \<^verbatim>\<open>split\<close>, \<^verbatim>\<open>normpath\<close>, \<^verbatim>\<open>abspath\<close>, \<^verbatim>\<open>expanduser\<close>\<close>

definition rstrip_slash :: "string \<Rightarrow> string" where
  "rstrip_slash s = rev (dropWhile (\<lambda>c. c = CHR ''/'') (rev s))"

definition posix_join :: "string \<Rightarrow> string \<Rightarrow> string" where
  "posix_join a b =
     (if prefix ''/'' b then b
      else if a = [] \<or> suffix ''/'' a then a @ b
      else a @ ''/'' @ b)"

definition last_name :: "string \<Rightarrow> string" where
  "last_name p = (case rev (names p) of [] \<Rightarrow> [] | x # xs \<Rightarrow> x)"

definition psplit :: "string \<Rightarrow> string \<times> string" where
  "psplit p =
     (let tail = last_name p;
          head = take (length p - length tail) p
      in (if head \<noteq> [] \<and> head \<noteq> replicate (length head) (CHR ''/'') then rstrip_slash head
          else head, tail))"

fun norm_comps :: "bool \<Rightarrow> string list \<Rightarrow> string list \<Rightarrow> string list" where
  "norm_comps rooted acc [] = rev acc"
| "norm_comps rooted acc (c # cs) =
     (if c = [] \<or> c = ''.'' then norm_comps rooted acc cs
      else if c \<noteq> ''..'' \<or> (\<not> rooted \<and> acc = []) \<or>
              (case acc of [] \<Rightarrow> False | a # as \<Rightarrow> a = ''..'')
      then norm_comps rooted (c # acc) cs
      else (case acc of [] \<Rightarrow> norm_comps rooted acc cs | a # as \<Rightarrow> norm_comps rooted as cs))"

definition normpath :: "string \<Rightarrow> string" where
  "normpath path =
     (if path = [] then ''.''
      else
        (let initial_slashes =
               (if prefix ''/'' path
                then (if prefix ''//'' path \<and> \<not> prefix ''///'' path then 2 else 1)
                else (0::nat));
             p = replicate initial_slashes (CHR ''/'') @
                 slash_join (norm_comps (initial_slashes \<noteq> 0) [] (names path))
         in if p = [] then ''.'' else p))"

definition posix_getcwd :: "machine \<Rightarrow> oserr + string" where
  "posix_getcwd m =
     (if cwd_gone m then Inl ENOENT else Inr (''/'' @ slash_join (cwd m)))"

definition posix_abspath :: "machine \<Rightarrow> string \<Rightarrow> oserr + string" where
  "posix_abspath m path =
     (if prefix ''/'' path then Inr (normpath path)
      else (case posix_getcwd m of
              Inl e \<Rightarrow> Inl e
            | Inr c \<Rightarrow> Inr (normpath (posix_join c path))))"

text \<open>\<^verbatim>\<open>expanduser\<close>: \<open>home\<close> is what the runtime finds for the current user (the variable
  \<^verbatim>\<open>HOME\<close>, or the user's entry in the user database), \<open>users\<close> is the user database; a
  user that is not found leaves the path as it is.\<close>

definition with_home :: "string \<Rightarrow> string \<Rightarrow> string" where
  "with_home userhome rest =
     (let r = rstrip_slash userhome @ rest in if r = [] then ''/'' else r)"

definition posix_expanduser :: "machine \<Rightarrow> string \<Rightarrow> oserr + string" where
  "posix_expanduser m path =
     (if \<not> prefix ''~'' path then Inr path
      else
        (let i = length (takeWhile (\<lambda>c. c \<noteq> CHR ''/'') path);
             name = drop 1 (take i path)
         in if i = 1 then
              (case home m of None \<Rightarrow> Inr path | Some h \<Rightarrow> Inr (with_home h (drop i path)))
            else if CHR 0x00 \<in> set name then Inl ENUL
            else
              (case map_of (users m) name of
                 None \<Rightarrow> Inr path
               | Some h \<Rightarrow> Inr (with_home h (drop i path)))))"

subsection \<open>\<^verbatim>\<open>shutil.copy2\<close> and \<^verbatim>\<open>shutil.copytree\<close>\<close>

text \<open>Opening a path for writing: the place of the file that is created or overwritten.\<close>

definition open_for_write :: "machine \<Rightarrow> string \<Rightarrow> oserr + string list" where
  "open_for_write m p =
     (if p = [] then Inl ENOENT
      else if CHR 0x00 \<in> set p then Inl ENUL
      else
        (case parent_of m p (names p) of
           Inl e \<Rightarrow> Inl e
         | Inr cur \<Rightarrow>
             if last_name p = [] \<or> last_name p = ''.'' \<or> last_name p = ''..'' then Inl EISDIR
             else if kind (root m) (cur @ [last_name p]) = Some KDir then Inl EISDIR
             else Inr (cur @ [last_name p])))"

text \<open>
  \<^verbatim>\<open>copy2(src, dst)\<close>: a destination that is a directory stands for the entry of the
  source's base name in it; source and destination must not be the same file; the source
  is opened for reading, then the destination for writing; content and attributes of the
  source become the destination's. An exception names the path of the call that failed.
  The model says nothing (\<open>None\<close>) when the file to write is named with a trailing slash.
\<close>

definition copy2_target :: "machine \<Rightarrow> string \<Rightarrow> string \<Rightarrow> string" where
  "copy2_target m src dst = (if posix_isdir m dst then posix_join dst (last_name src) else dst)"

definition same_file :: "machine \<Rightarrow> string \<Rightarrow> string \<Rightarrow> bool" where
  "same_file m a b =
     (case namei m a of
        Inl e \<Rightarrow> False
      | Inr ca \<Rightarrow> (case namei m b of Inl e \<Rightarrow> False | Inr cb \<Rightarrow> ca = cb))"

definition same_file_error :: "string \<Rightarrow> string \<Rightarrow> pyexn" where
  "same_file_error src dst =
     PyExn ''SameFileError'' (quoted src @ '' and '' @ quoted dst @ '' are the same file'')"

definition posix_copy2 ::
  "machine \<Rightarrow> string \<Rightarrow> string \<Rightarrow> ((pyexn + unit) \<times> machine) option" where
  "posix_copy2 m src dst =
     (if CHR 0x00 \<in> set src then Some (Inl (os_error ENUL src), m)
      else if CHR 0x00 \<in> set dst then Some (Inl (os_error ENUL dst), m)
      else if same_file m src (copy2_target m src dst)
      then Some (Inl (same_file_error src (copy2_target m src dst)), m)
      else
        (case namei m src of
           Inl e \<Rightarrow> Some (Inl (os_error e src), m)
         | Inr sc \<Rightarrow>
             (case lookup (root m) sc of
                None \<Rightarrow> Some (Inl (os_error ENOENT src), m)
              | Some (Dir es) \<Rightarrow> Some (Inl (os_error EISDIR src), m)
              | Some (File content a) \<Rightarrow>
                  if last_name (copy2_target m src dst) = [] then None
                  else
                    (case open_for_write m (copy2_target m src dst) of
                       Inl e \<Rightarrow> Some (Inl (os_error e (copy2_target m src dst)), m)
                     | Inr dc \<Rightarrow> Some (Inr (), place_at m dc (File content a))))))"

text \<open>
  \<^verbatim>\<open>copytree(src, dst)\<close> lists the source, makes the destination with \<^verbatim>\<open>os.makedirs\<close> and
  copies the entries. The model covers the calls where \<^verbatim>\<open>makedirs\<close> comes down to one
  \<^verbatim>\<open>os.mkdir\<close> of the destination (its head exists, its tail is not \<^verbatim>\<open>.\<close>) and where the new
  directory does not lie inside an entry of the source; there the result is \<open>Some\<close>. On the
  other calls (missing ancestors to create, copying into the source's own subtree) the
  model gives \<open>None\<close> and says nothing.
\<close>

definition makedirs_is_mkdir :: "machine \<Rightarrow> string \<Rightarrow> bool" where
  "makedirs_is_mkdir m dst =
     (let ht = (if snd (psplit dst) = [] then psplit (fst (psplit dst)) else psplit dst)
      in CHR 0x00 \<notin> set dst \<and> snd ht \<noteq> ''.'' \<and>
         (snd ht = [] \<or> fst ht = [] \<or> posix_exists m (fst ht)))"

definition posix_copytree ::
  "machine \<Rightarrow> string \<Rightarrow> string \<Rightarrow> ((pyexn + unit) \<times> machine) option" where
  "posix_copytree m src dst =
     (case namei m src of
        Inl e \<Rightarrow> Some (Inl (os_error e src), m)
      | Inr sc \<Rightarrow>
          (case lookup (root m) sc of
             None \<Rightarrow> Some (Inl (os_error ENOENT src), m)
           | Some (File content a) \<Rightarrow> Some (Inl (os_error ENOTDIR src), m)
           | Some (Dir es) \<Rightarrow>
               if \<not> makedirs_is_mkdir m dst then None
               else
                 (case os_mkdir m dst of
                    Inl e \<Rightarrow> Some (Inl (os_error e dst), m)
                  | Inr m1 \<Rightarrow>
                      (case namei m1 dst of
                         Inl e \<Rightarrow> None
                       | Inr dc \<Rightarrow>
                           if prefix sc dc \<and> length dc \<noteq> Suc (length sc) then None
                           else Some (Inr (), place_at m1 dc (Dir es))))))"

subsection \<open>The collaborators of the machine\<close>

text \<open>
  \<open>posix base\<close> is \<open>base\<close> with the path functions and the file-system calls above in
  place of its own, on string arguments; where the model says nothing (another argument
  type, a \<^verbatim>\<open>copytree\<close> or \<^verbatim>\<open>copy2\<close> outside the modelled calls, reading, writing, globbing,
  \<^verbatim>\<open>stat\<close>, moving) \<open>base\<close> decides. Whatever holds of \<open>posix base\<close> for every \<open>base\<close> holds of
  every set of collaborators that agrees with the model.
\<close>

definition not_str :: "json \<Rightarrow> pyexn" where
  "not_str v =
     PyExn ''TypeError'' (''expected str, bytes or os.PathLike object, not '' @ type_name v)"

definition raised :: "string \<Rightarrow> (oserr + 'a) \<times> machine \<Rightarrow> (pyexn + 'a) \<times> machine" where
  "raised p r = (case r of (Inl e, m) \<Rightarrow> (Inl (os_error e p), m) | (Inr v, m) \<Rightarrow> (Inr v, m))"

definition posix :: "machine sys \<Rightarrow> machine sys" where
  "posix base = base
     \<lparr> path_expanduser := (\<lambda>p m. case p of
           JStr s \<Rightarrow> (case posix_expanduser m s of Inl e \<Rightarrow> Inl (os_error e s) | Inr r \<Rightarrow> Inr r)
         | _ \<Rightarrow> Inl (not_str p)),
       path_abspath := (\<lambda>s m. case posix_abspath m s of Inl e \<Rightarrow> Inl (os_error e s) | Inr r \<Rightarrow> Inr r),
       fs_exists := (\<lambda>p m. case p of JStr s \<Rightarrow> posix_exists m s | _ \<Rightarrow> fs_exists base p m),
       fs_isdir := (\<lambda>p m. case p of JStr s \<Rightarrow> posix_isdir m s | _ \<Rightarrow> fs_isdir base p m),
       fs_isfile := (\<lambda>p m. case p of JStr s \<Rightarrow> posix_isfile m s | _ \<Rightarrow> fs_isfile base p m),
       fs_mkdir := (\<lambda>p parents m. case p of
           JStr s \<Rightarrow> posix_mkdir m s parents
         | _ \<Rightarrow> fs_mkdir base p parents m),
       fs_rmtree := (\<lambda>p m. case p of JStr s \<Rightarrow> raised s (posix_rmtree m s) | _ \<Rightarrow> fs_rmtree base p m),
       fs_rmdir := (\<lambda>p m. case p of JStr s \<Rightarrow> raised s (posix_rmdir m s) | _ \<Rightarrow> fs_rmdir base p m),
       fs_remove := (\<lambda>p m. case p of JStr s \<Rightarrow> raised s (posix_remove m s) | _ \<Rightarrow> fs_remove base p m),
       fs_copytree := (\<lambda>a b m. case (a, b) of
           (JStr src, JStr dst) \<Rightarrow>
             (case posix_copytree m src dst of
                Some r \<Rightarrow> r
              | None \<Rightarrow> fs_copytree base a b m)
         | _ \<Rightarrow> fs_copytree base a b m),
       fs_copy2 := (\<lambda>a b m. case (a, b) of
           (JStr src, JStr dst) \<Rightarrow>
             (case posix_copy2 m src dst of
                Some r \<Rightarrow> r
              | None \<Rightarrow> fs_copy2 base a b m)
         | _ \<Rightarrow> fs_copy2 base a b m) \<rparr>"

section \<open>Collaborators and a machine for the examples\<close>

text \<open>
  The examples below run the handlers on concrete inputs. They need every collaborator
  as a concrete function. \<open>plain\<close> supplies simple ones for what the machine does not
  model: an ASCII \<^verbatim>\<open>lower\<close> and \<^verbatim>\<open>strip\<close>, a join of path names, a decoder that knows two
  request lines and rejects every other line, an encoder that prints the top-level members
  of a response, a reader that returns a file's content as it is, a glob that knows one
  pattern, and other file operations that raise. No theorem about the handlers depends on
  them: the theorems hold for all collaborators, or for \<open>posix base\<close> with any \<open>base\<close>.
\<close>

definition unavailable :: pyexn where
  "unavailable = PyExn ''OSError'' ''not available''"

definition ascii_lower :: "string \<Rightarrow> string" where
  "ascii_lower s =
     map (\<lambda>c. if 65 \<le> (of_char c :: nat) \<and> (of_char c :: nat) \<le> 90
               then char_of ((of_char c :: nat) + 32) else c) s"

definition ascii_space :: "char \<Rightarrow> bool" where
  "ascii_space c = ((of_char c :: nat) = 32 \<or> (9 \<le> (of_char c :: nat) \<and> (of_char c :: nat) \<le> 13))"

definition ascii_strip :: "string \<Rightarrow> string" where
  "ascii_strip s = rev (dropWhile ascii_space (rev (dropWhile ascii_space s)))"

fun join_values :: "json list \<Rightarrow> pyexn + json" where
  "join_values [] = Inl (PyExn ''TypeError'' ''join() missing 1 required positional argument'')"
| "join_values [JStr a] = Inr (JStr a)"
| "join_values (JStr a # JStr b # rest) = join_values (JStr (posix_join a b) # rest)"
| "join_values (v # rest) = Inl (not_str (case v of JStr a \<Rightarrow> (case rest of w # ws \<Rightarrow> w | [] \<Rightarrow> v) | _ \<Rightarrow> v))"

definition dquoted :: "string \<Rightarrow> string" where
  "dquoted s = [CHR 0x22] @ s @ [CHR 0x22]"

definition line_initialize :: string where
  "line_initialize =
     ''{'' @ dquoted ''id'' @ '': 7, '' @ dquoted ''method'' @ '': '' @ dquoted ''initialize'' @ ''}'' @
     [CHR 0x0A]"

definition line_empty_object :: string where
  "line_empty_object = ''{}'' @ [CHR 0x0A]"

definition plain_loads :: "string \<Rightarrow> pyexn + json" where
  "plain_loads line =
     (if line = line_initialize then Inr (JDict [(''id'', JInt 7), (''method'', JStr ''initialize'')])
      else if line = line_empty_object then Inr (JDict [])
      else Inl (PyExn ''JSONDecodeError'' ''Expecting value: line 1 column 1 (char 0)''))"

fun plain_scalar :: "json \<Rightarrow> string" where
  "plain_scalar JNull = ''null''"
| "plain_scalar (JBool b) = (if b then ''true'' else ''false'')"
| "plain_scalar (JInt i) = str_of_int i"
| "plain_scalar (JStr s) = dquoted s"
| "plain_scalar (JFloat f) = ''<float>''"
| "plain_scalar (JList xs) = ''[...]''"
| "plain_scalar (JDict kvs) =
     ''{'' @ slash_join (map (\<lambda>kv. dquoted (fst kv)) kvs) @ ''}''"

definition plain_dumps :: "json \<Rightarrow> string" where
  "plain_dumps v =
     (case v of
        JDict kvs \<Rightarrow>
          ''{'' @ concat (map (\<lambda>kv. dquoted (fst kv) @ '': '' @ plain_scalar (snd kv) @ '' '') kvs) @ ''}''
      | _ \<Rightarrow> plain_scalar v)"

definition plain_read :: "json \<Rightarrow> machine \<Rightarrow> pyexn + string" where
  "plain_read p m =
     (case p of
        JStr s \<Rightarrow>
          (case namei m s of
             Inl e \<Rightarrow> Inl (os_error e s)
           | Inr c \<Rightarrow>
               (case lookup (root m) c of
                  Some (File content a) \<Rightarrow> Inr content
                | _ \<Rightarrow> Inl (os_error EISDIR s)))
      | _ \<Rightarrow> Inl (not_str p))"

definition plain_glob :: "json \<Rightarrow> bool \<Rightarrow> machine \<Rightarrow> pyexn + string list" where
  "plain_glob pat rec m =
     (if pat = JStr ''docs/**/*'' \<and> rec
      then Inr [''docs/a.txt'', ''docs/sub'', ''docs/sub/b.txt'', ''docs/gone.txt'']
      else Inl unavailable)"

definition plain :: "machine sys" where
  "plain =
     \<lparr> path_expanduser = (\<lambda>p m. Inl unavailable),
       path_abspath = (\<lambda>s m. Inl unavailable),
       path_join = join_values,
       path_absolute = (\<lambda>p m. Inl unavailable),
       guess_type = (\<lambda>p. Inr None),
       fs_read_bytes = plain_read,
       fs_read_text = (\<lambda>p enc m. plain_read p m),
       fs_read_lenient = plain_read,
       fs_write_text = (\<lambda>p mode enc content m. (Inl unavailable, m)),
       fs_glob = plain_glob,
       fs_exists = (\<lambda>p m. False),
       fs_isdir = (\<lambda>p m. False),
       fs_isfile = (\<lambda>p m. False),
       fs_stat = (\<lambda>p m. Inl unavailable),
       fs_mkdir = (\<lambda>p parents m. (Inl unavailable, m)),
       fs_rmtree = (\<lambda>p m. (Inl unavailable, m)),
       fs_rmdir = (\<lambda>p m. (Inl unavailable, m)),
       fs_remove = (\<lambda>p m. (Inl unavailable, m)),
       fs_move = (\<lambda>a b m. (Inl unavailable, m)),
       fs_copytree = (\<lambda>a b m. (Inl unavailable, m)),
       fs_copy2 = (\<lambda>a b m. (Inl unavailable, m)),
       b64encode = (\<lambda>s. s),
       md5_hexdigest = (\<lambda>s. []),
       json_dumps = plain_dumps,
       json_dumps_indent = plain_dumps,
       json_loads = plain_loads,
       str_lower = ascii_lower,
       str_strip = ascii_strip,
       format_2f = (\<lambda>n k. str_of_int (n div 1024 ^ k)),
       value_repr = plain_scalar \<rparr>"

text \<open>A small machine: \<^verbatim>\<open>/etc/passwd\<close>, a home directory \<^verbatim>\<open>/home/u\<close> with a non-empty directory
  \<^verbatim>\<open>docs\<close> and a file \<^verbatim>\<open>notes.txt\<close>, and an empty \<^verbatim>\<open>/tmp\<close>; the working directory is the home
  directory.\<close>

definition attr0 :: fattr where
  "attr0 = \<lparr> f_mode = 420, f_mtime = PyFloat 1700000000 0, f_atime = PyFloat 1700000000 0 \<rparr>"

definition docs :: node where
  "docs = Dir [(''a.txt'', File (''Hello World'' @ [CHR 0x0A] @ ''  say hello again  '') attr0),
               (''sub'', Dir [(''b.txt'', File ''bye'' attr0)])]"

definition demo :: machine where
  "demo =
     \<lparr> root = Dir [(''etc'', Dir [(''passwd'', File ''root:x:0:0'' attr0)]),
                   (''home'', Dir [(''u'', Dir [(''docs'', docs),
                                                (''notes.txt'', File ''todo'' attr0)])]),
                   (''tmp'', Dir [])],
       cwd = [''home'', ''u''],
       cwd_gone = False,
       home = Some ''/home/u'',
       users = [(''u'', ''/home/u'')] \<rparr>"

definition fresh :: "machine st" where
  "fresh = \<lparr> world = demo, calls = [] \<rparr>"

section \<open>The dispatcher on an unknown tool\<close>

lemma unknown_tool_response:
  assumes "map_of req ''method'' = Some (JStr ''tools/call'')"
    and "value_get (dict_get req ''params'' (JDict [])) ''name'' JNull = Inr tool_name"
    and "hashable tool_name"
    and "table_get (tool_handlers sys) tool_name = None"
  shows "handle_request sys (JDict req) s =
           (Inr (rpc_result (dict_get req ''id'' JNull) (unknown_tool sys tool_name)), s)"
  using assms
  by (cases "dict_get req ''params'' (JDict [])")
     (auto simp: handle_request_def handlers_def table_get_def dict_get_def
        handle_call_tool_def split: option.splits)

text \<open>
  C1. A \<^verbatim>\<open>tools/call\<close> of an unregistered name should be answered with a top-level
  \<^verbatim>\<open>error\<close> member of code \<open>-32601\<close> and no \<^verbatim>\<open>result\<close> member. The code does otherwise:
  \<^verbatim>\<open>handle_call_tool\<close> returns the error object as an ordinary value and \<^verbatim>\<open>handle_request\<close>
  wraps whatever the handler returns in \<^verbatim>\<open>result\<close>. On the request for \<^verbatim>\<open>not_a_tool\<close> the
  response has a \<^verbatim>\<open>result\<close> member, which holds the error object, and no \<^verbatim>\<open>error\<close> member.
\<close>

theorem unknown_tool_wrapped_in_result:
  "\<exists>response.
     handle_request sys request_not_a_tool s = (Inr response, s) \<and>
     member response ''error'' = None \<and>
     member response ''result'' =
       Some (JDict [(''error'', JDict [(''code'', JInt (- 32601)),
                                        (''message'', JStr ''Unknown tool: not_a_tool'')])])"
  by (simp add: request_not_a_tool_def handle_request_def handlers_def table_get_def dict_get_def
      handle_call_tool_def tool_handlers_def unknown_tool_def rpc_result_def member_def)

section \<open>The safety gate decides by prefix\<close>

text \<open>
  C3. \<^verbatim>\<open>is_safe_path\<close> answers \<^verbatim>\<open>False\<close> exactly when expanding the user part or making the
  path absolute raises, or the absolute path starts with one of \<^verbatim>\<open>/etc\<close>, \<^verbatim>\<open>/sys\<close>, \<^verbatim>\<open>/proc\<close>,
  \<^verbatim>\<open>C:\Windows\<close>, \<^verbatim>\<open>C:\Program Files\<close>; on every other path it answers \<^verbatim>\<open>True\<close>.
\<close>

theorem is_safe_path_false_iff:
  "(is_safe_path sys p w = False) =
     (case path_expanduser sys p w of
        Inl e \<Rightarrow> True
      | Inr expanded \<Rightarrow>
          (case path_abspath sys expanded w of
             Inl e \<Rightarrow> True
           | Inr a \<Rightarrow>
               prefix ''/etc'' a \<or> prefix ''/sys'' a \<or> prefix ''/proc'' a \<or>
               prefix (''C:'' @ [CHR 0x5C] @ ''Windows'') a \<or>
               prefix (''C:'' @ [CHR 0x5C] @ ''Program Files'') a))"
  by (simp add: is_safe_path_def startswith_any_def deny_prefixes_def split: sum.splits)

text \<open>On the machine of the examples: a path under \<^verbatim>\<open>/etc\<close>, a sibling that shares the
  prefix, a path that leads there through \<^verbatim>\<open>..\<close>, a value that is not a string, and two paths
  elsewhere.\<close>

lemma is_safe_path_examples:
  "\<not> is_safe_path (posix plain) (JStr ''/etc/passwd'') demo"
  "\<not> is_safe_path (posix plain) (JStr ''/etc2/notes'') demo"
  "\<not> is_safe_path (posix plain) (JStr ''/tmp/../etc/passwd'') demo"
  "\<not> is_safe_path (posix plain) (JInt 3) demo"
  "is_safe_path (posix plain) (JStr ''~/docs'') demo"
  "is_safe_path (posix plain) (JStr ''/tmp/x'') demo"
  by code_simp+

section \<open>The gate comes first in every handler\<close>

text \<open>
  C2. Whichever of the nine handlers is called, and whichever of its path-valued
  arguments the gate rejects (the argument as given, or the default the handler reads when
  it is absent), the handler returns the text result "Error: Access to this path is
  restricted" and leaves the state as it was: the machine is unchanged and no file-system
  call has been added to the list of calls. The result is a normal return (\<open>Inr\<close>), not an
  exception.
\<close>

theorem gate_rejection_short_circuits:
  assumes "(tool, handler) \<in> set (tool_handlers sys)"
    and "(k, dflt) \<in> set (path_arguments tool)"
    and "\<not> is_safe_path sys (dict_get d k dflt) (world s)"
  shows "handler (JDict d) s = (Inr restricted, s)"
  using assms
  by (auto simp: tool_handlers_def path_arguments_def read_file_def write_file_def list_files_def
      create_directory_def delete_file_def move_file_def copy_file_def get_file_info_def
      search_files_def Let_def)

theorem gate_rejection_short_circuits_witness:
  "(''write_file'', write_file (posix plain)) \<in> set (tool_handlers (posix plain)) \<and>
   (''path'', JStr '''') \<in> set (path_arguments ''write_file'') \<and>
   \<not> is_safe_path (posix plain)
       (dict_get [(''path'', JStr ''/etc/anything''), (''content'', JStr ''x'')] ''path'' (JStr ''''))
       (world fresh) \<and>
   write_file (posix plain) (JDict [(''path'', JStr ''/etc/anything''), (''content'', JStr ''x'')]) fresh =
     (Inr (text_result ''Error: Access to this path is restricted''), fresh)"
proof -
  have h1: "(''write_file'', write_file (posix plain)) \<in> set (tool_handlers (posix plain))"
    by (simp add: tool_handlers_def)
  have h2: "(''path'', JStr '''') \<in> set (path_arguments ''write_file'')"
    by (simp add: path_arguments_def)
  have h3: "\<not> is_safe_path (posix plain)
       (dict_get [(''path'', JStr ''/etc/anything''), (''content'', JStr ''x'')] ''path'' (JStr ''''))
       (world fresh)"
    by code_simp
  from gate_rejection_short_circuits [OF h1 h2 h3] h1 h2 h3 show ?thesis
    by (simp add: restricted_def)
qed

section \<open>Handlers return text results\<close>















section \<open>One text block per result\<close>




text \<open>The strings in those blocks, for the three handlers with structured results.\<close>

lemma list_files_serialises:
  assumes "is_safe_path sys (dict_get d ''path'' (JStr ''.'')) (world s)"
    and "list_files sys (JDict d) s = (Inr r, s')"
  shows "(\<exists>e. r = text_result (''Error listing files: '' @ exn_str e)) \<or>
         (\<exists>file_list. r = text_result (json_dumps_indent sys (JList file_list)))"
  using assms
  by (auto simp: list_files_def Let_def split: sum.splits prod.splits)

lemma get_file_info_serialises:
  assumes "is_safe_path sys (dict_get d ''path'' (JStr '''')) (world s)"
    and "get_file_info sys (JDict d) s = (Inr r, s')"
  shows "r = text_result (''File not found: '' @ py_str sys (dict_get d ''path'' (JStr ''''))) \<or>
         (\<exists>e. r = text_result (''Error getting file info: '' @ exn_str e)) \<or>
         (\<exists>info. r = text_result (json_dumps_indent sys (JDict info)))"
  using assms
  by (auto simp: get_file_info_def file_info_body_def Let_def split: sum.splits prod.splits if_splits)

section \<open>The request loop survives a malformed line\<close>




section \<open>What the search records\<close>





lemma searched_Some:
  assumes "searched sys pat w f = Some r"
  shows "\<exists>p content. pat = JStr p \<and> fs_isfile sys (JStr f) w \<and>
           fs_read_lenient sys (JStr f) w = Inr content \<and>
           occurs_in (str_lower sys p) (str_lower sys content) \<and>
           r = JDict [(''file'', JStr f),
                      (''matches'', JList (take 5 (matching_lines sys p content)))]"
  using assms
  by (auto simp: searched_def search_content_def split: if_splits sum.splits json.splits)

lemma searched_complete:
  assumes "fs_isfile sys (JStr f) w"
    and "fs_read_lenient sys (JStr f) w = Inr content"
    and "occurs_in (str_lower sys p) (str_lower sys content)"
  shows "searched sys (JStr p) w f =
           Some (JDict [(''file'', JStr f),
                        (''matches'', JList (take 5 (matching_lines sys p content)))])"
  using assms by (simp add: searched_def search_content_def)




section \<open>The tree\<close>

lemma lookup_append:
  "lookup t (p @ q) = (case lookup t p of None \<Rightarrow> None | Some n \<Rightarrow> lookup n q)"
proof (induction p arbitrary: t)
  case Nil
  show ?case by simp
next
  case (Cons x p)
  show ?case by (cases t) (simp_all add: Cons.IH split: option.splits)
qed



lemma kind_parent: "kind t (p @ [x]) \<noteq> None \<Longrightarrow> kind t p = Some KDir"
  by (cases "lookup t p")
     (auto simp: kind_def lookup_append split: option.splits node.splits)








section \<open>The walk\<close>


lemma walk_mono:
  assumes "\<And>q. kind t q \<noteq> None \<Longrightarrow> kind t' q = kind t q"
  shows "walk t cur ts = Inr r \<Longrightarrow> walk t' cur ts = Inr r"
proof (induction ts arbitrary: cur)
  case Nil
  then show ?case by simp
next
  case (Cons x xs)
  from Cons.prems have k: "kind t cur = Some KDir"
    by (auto split: option.splits kind.splits)
  with assms [of cur] have k': "kind t' cur = Some KDir" by simp
  show ?case
  proof (cases "x = [] \<or> x = ''.'' \<or> x = ''..''")
    case True
    with Cons.prems k k' Cons.IH show ?thesis by (auto split: if_splits)
  next
    case False
    with Cons.prems k have ne: "kind t (cur @ [x]) \<noteq> None" and w: "walk t (cur @ [x]) xs = Inr r"
      by (auto split: if_splits)
    from assms [OF ne] ne have "kind t' (cur @ [x]) \<noteq> None" by simp
    with False k' Cons.IH [OF w] show ?thesis by simp
  qed
qed



section \<open>The machine's collaborators, field by field\<close>

lemma posix_fields [simp]:
  "fs_exists (posix base) (JStr p) m = posix_exists m p"
  "fs_isdir (posix base) (JStr p) m = posix_isdir m p"
  "fs_isfile (posix base) (JStr p) m = posix_isfile m p"
  "fs_mkdir (posix base) (JStr p) parents m = posix_mkdir m p parents"
  "fs_rmtree (posix base) (JStr p) m = raised p (posix_rmtree m p)"
  "fs_rmdir (posix base) (JStr p) m = raised p (posix_rmdir m p)"
  "fs_remove (posix base) (JStr p) m = raised p (posix_remove m p)"
  "fs_copy2 (posix base) (JStr p) (JStr q) m =
     (case posix_copy2 m p q of Some r \<Rightarrow> r | None \<Rightarrow> fs_copy2 base (JStr p) (JStr q) m)"
  "fs_copytree (posix base) (JStr p) (JStr q) m =
     (case posix_copytree m p q of Some r \<Rightarrow> r | None \<Rightarrow> fs_copytree base (JStr p) (JStr q) m)"
  "path_expanduser (posix base) v m =
     (case v of
        JStr s \<Rightarrow> (case posix_expanduser m s of Inl e \<Rightarrow> Inl (os_error e s) | Inr r \<Rightarrow> Inr r)
      | _ \<Rightarrow> Inl (not_str v))"
  "path_abspath (posix base) e m =
     (case posix_abspath m e of Inl x \<Rightarrow> Inl (os_error x e) | Inr r \<Rightarrow> Inr r)"
  by (simp_all add: posix_def)


section \<open>Resolution in a machine that has lost or gained entries\<close>


lemma parent_of_mono:
  assumes le: "\<And>q. kind (root m') q \<noteq> None \<Longrightarrow> kind (root m) q = kind (root m') q"
    and "cwd m' = cwd m" and "cwd_gone m \<Longrightarrow> cwd_gone m'"
    and "parent_of m' p ts = Inr r"
  shows "parent_of m p ts = Inr r"
proof -
  from assms(4) obtain cur where
    ng: "\<not> (\<not> prefix ''/'' p \<and> cwd_gone m')"
    and w: "walk (root m') (start m' p) (butlast ts) = Inr cur"
    and k: "kind (root m') cur = Some KDir" and r: "r = cur"
    by (auto simp: parent_of_def walk_from_def split: if_splits sum.splits option.splits kind.splits)
  have st: "start m' p = start m p" using assms(2) by (simp add: start_def)
  from walk_mono [of "root m'" "root m", OF _ w] le
  have "walk (root m) (start m p) (butlast ts) = Inr cur" by (simp add: st)
  moreover from le [of cur] k have "kind (root m) cur = Some KDir" by simp
  ultimately show ?thesis using ng assms(3) r by (auto simp: parent_of_def walk_from_def)
qed





section \<open>Removing a directory\<close>












section \<open>The handlers on the machine\<close>






section \<open>Making a directory\<close>




lemma walk_empties: "walk t c (replicate k []) = Inr r \<Longrightarrow> r = c"
  by (induction k) (auto split: option.splits kind.splits)

















section \<open>Copying\<close>












end
